theory Spec2Isabelle
  imports Main "HOL-Library.Word"
begin

unbundle bit_operations_syntax

section \<open>The class template \<open>supsm::fixed\<close> (fixed.h)\<close>

text \<open>
  The representation type \<open>T\<close> of the template is an \<open>n\<close>-bit integer type. It is
  modelled by the word type \<open>'a word\<close> with \<open>n = LENGTH('a)\<close>, together with the flag
  \<open>is_signed\<close> (\<open>std::is_signed_v<T>\<close>) that says how the bits are read.
  \<open>UT = std::make_unsigned_t<T>\<close> is then the same word read without sign, and
  \<open>static_cast<UT>\<close> and \<open>static_cast<T>\<close> between the two are the identity on the bits.
  \<open>std::make_unsigned_t\<close> is only defined for the built-in integer types, whose widths
  are even; the theorems on the long multiplication carry that as \<open>even LENGTH('a)\<close>.

  Arithmetic on operands narrower than \<open>int\<close> is carried out by C++ in \<open>int\<close> and
  converted back on assignment. In the member functions modelled on words below every
  such result is stored into a variable of type \<open>T\<close> or \<open>UT\<close> before it is used
  again, so the stored value is the word operation's value.

  Shifts are \<open>push_bit\<close> and \<open>drop_bit\<close> (\<open>signed_drop_bit\<close> for the arithmetic
  shift of a signed type). C++ leaves a shift undefined when its count reaches the width
  of the promoted left operand: 32 for a representation type narrower than \<open>int\<close>, the
  width of the type itself otherwise. The multiplication, the division and the shift
  operators return \<open>Undefined\<close> for such a count. In \<open>operator*=\<close> and \<open>operator/=\<close>
  that happens for a representation type of 32 bits or more at \<open>scale_bits = n\<close>, and
  in the long multiplication also at \<open>scale_bits = 0\<close>, which only the division guards.
\<close>

record (overloaded) ('a::len) fixed =
  raw_data :: "'a word"

text \<open>
  The template parameters other than the width of \<open>T\<close>. \<open>multdiv_cast_type\<close> is given by
  its signedness and its width in bits.
\<close>

record config =
  is_signed :: bool
  scale_bits :: nat
  fast_multdiv :: bool
  multdiv_cast_type :: "bool \<times> nat"

text \<open>
  What an expression on values of the class can do other than yield a value: an
  expression that no overload accepts is rejected by the compiler, and a division by
  zero (or one whose quotient does not fit the type it is computed in) and a shift by
  a negative count or by a count that reaches the width of the promoted operand are
  undefined.
\<close>

datatype failure = Ill_formed | Undefined

subsection \<open>Values and conversions of integer types\<close>

text \<open>The mathematical value of a word of a type with the given signedness.\<close>

definition value_of :: "bool \<Rightarrow> 'a::len word \<Rightarrow> int" where
  "value_of sg w = (if sg then sint w else uint w)"

text \<open>
  Conversion of a value of an integer type with signedness \<open>sg\<close> to another integer
  type: the result is congruent to the value modulo \<open>2 ^ width\<close>.
\<close>

definition cast :: "bool \<Rightarrow> 'a::len word \<Rightarrow> 'b::len word" where
  "cast sg w = (if sg then scast w else ucast w)"

text \<open>
  An integer type is given by its signedness and its width in bits. \<open>wrap\<close> converts a
  mathematical value to the type: the value of the type congruent to it modulo
  \<open>2 ^ width\<close>.
\<close>

definition wrap :: "bool \<times> nat \<Rightarrow> int \<Rightarrow> int" where
  "wrap ty v = (if fst ty then signed_take_bit (snd ty - 1) v else take_bit (snd ty) v)"

text \<open>
  Integer promotion: an operand of a type narrower than \<open>int\<close> (32 bits, signed) is
  converted to \<open>int\<close> before arithmetic; other types are kept.
\<close>

definition promoted :: "bool \<times> nat \<Rightarrow> bool \<times> nat" where
  "promoted ty = (if snd ty < 32 then (True, 32) else ty)"

text \<open>
  The usual arithmetic conversions on two promoted types, the type in which a binary
  operator computes. With equal signedness it is the wider type. Otherwise it is the
  unsigned type when that is at least as wide as the signed one, and the signed type
  when it is strictly wider and so holds every value of the unsigned one.
\<close>

definition common_type :: "bool \<times> nat \<Rightarrow> bool \<times> nat \<Rightarrow> bool \<times> nat" where
  "common_type t1 t2 =
     (if fst t1 = fst t2 then (fst t1, max (snd t1) (snd t2))
      else let wu = (if fst t1 then snd t2 else snd t1);
               ws = (if fst t1 then snd t1 else snd t2)
           in if ws \<le> wu then (False, wu) else (True, ws))"

text \<open>
  A shift of an operand of type \<open>T\<close> or \<open>UT\<close> by \<open>amt\<close> is defined when \<open>amt\<close> is below
  the width of the promoted operand, which does not depend on the signedness.
\<close>

definition shift_defined :: "'a::len itself \<Rightarrow> nat \<Rightarrow> bool" where
  "shift_defined _ amt = (amt < snd (promoted (False, LENGTH('a))))"

text \<open>
  \<open>a / b\<close> and \<open>a % b\<close> computed in the type \<open>ty\<close> are undefined when \<open>b\<close> is zero, and
  when \<open>ty\<close> is signed, \<open>a\<close> is its least value and \<open>b\<close> is \<open>-1\<close>: the quotient is not
  a value of \<open>ty\<close>.
\<close>

definition division_undefined :: "bool \<times> nat \<Rightarrow> int \<Rightarrow> int \<Rightarrow> bool" where
  "division_undefined ty a b = (b = 0 \<or> (fst ty \<and> a = - (2 ^ (snd ty - 1)) \<and> b = - 1))"

text \<open>\<open>>>\<close> on a type with signedness \<open>sg\<close>: arithmetic when signed, logical otherwise.\<close>

definition shift_right :: "bool \<Rightarrow> 'a::len word \<Rightarrow> nat \<Rightarrow> 'a word" where
  "shift_right sg w amt = (if sg then signed_drop_bit amt w else drop_bit amt w)"

text \<open>
  Subtraction in \<open>std::size_t\<close> (64 bits): the difference, or the difference plus
  \<open>2 ^ 64\<close> when the subtrahend is the larger one.
\<close>

definition size_sub :: "nat \<Rightarrow> nat \<Rightarrow> nat" where
  "size_sub a b = (if b \<le> a then a - b else a + 2 ^ 64 - b)"

text \<open>\<open>std::numeric_limits<T>::min()\<close> and \<open>max()\<close> of the representation type.\<close>

definition T_min :: "bool \<Rightarrow> 'a::len word" where
  "T_min sg = (if sg then push_bit (LENGTH('a) - 1) 1 else 0)"

definition T_max :: "bool \<Rightarrow> 'a::len word" where
  "T_max sg = (if sg then mask (LENGTH('a) - 1) else - 1)"

text \<open>
  Integer division and remainder of C++ (\<open>/\<close> and \<open>%\<close>): the quotient is truncated
  towards zero, the remainder has the sign of the dividend.
\<close>

definition tdiv :: "int \<Rightarrow> int \<Rightarrow> int" where
  "tdiv a b = sgn a * sgn b * (\<bar>a\<bar> div \<bar>b\<bar>)"

definition trem :: "int \<Rightarrow> int \<Rightarrow> int" where
  "trem a b = a - b * tdiv a b"

subsection \<open>Constructors and conversion to an integer\<close>

text \<open>
  \<open>fixed(int_val)\<close>: \<open>raw_data(T(int_val) << scale_bits)\<close>. The argument is given by
  its mathematical value; \<open>T(int_val)\<close> is \<open>word_of_int\<close>.
\<close>

definition fixed_int :: "config \<Rightarrow> int \<Rightarrow> 'a::len fixed" where
  "fixed_int c int_val = \<lparr>raw_data = push_bit (scale_bits c) (word_of_int int_val)\<rparr>"

text \<open>\<open>fixed(int_val, scale)\<close>: \<open>raw_data(T(int_val) << (scale_bits - scale))\<close>.\<close>

definition fixed_scaled :: "config \<Rightarrow> int \<Rightarrow> nat \<Rightarrow> 'a::len fixed" where
  "fixed_scaled c int_val scale =
     \<lparr>raw_data = push_bit (size_sub (scale_bits c) scale) (word_of_int int_val)\<rparr>"

text \<open>
  \<open>explicit operator T2()\<close>: \<open>return T2(raw_data) >> scale_bits\<close>. \<open>T2\<close> is the word type
  \<open>'b\<close> with signedness \<open>sg2\<close>. The cast to \<open>T2\<close> is applied to \<open>raw_data\<close>, the shift to
  the result of the cast.
\<close>

definition to_integer :: "config \<Rightarrow> bool \<Rightarrow> 'a::len fixed \<Rightarrow> 'b::len word" where
  "to_integer c sg2 x = shift_right sg2 (cast (is_signed c) (raw_data x)) (scale_bits c)"

text \<open>
  What the specification asks of the conversion: the shift by \<open>scale_bits\<close> at the width
  of the representation type, the result narrowed to \<open>T2\<close> afterwards.
\<close>

definition to_integer_spec :: "config \<Rightarrow> 'a::len fixed \<Rightarrow> 'b::len word" where
  "to_integer_spec c x =
     cast (is_signed c) (shift_right (is_signed c) (raw_data x) (scale_bits c))"

subsection \<open>Long multiplication (\<open>operator*=\<close>, \<open>fast_multdiv = false\<close>)\<close>

definition low_bits_num :: "'a::len itself \<Rightarrow> nat" where
  "low_bits_num _ = LENGTH('a) div 2"

definition bits_num :: "'a::len itself \<Rightarrow> nat" where
  "bits_num _ = LENGTH('a)"

definition high_bits :: "'a::len word \<Rightarrow> 'a word" where
  "high_bits x = drop_bit (low_bits_num TYPE('a)) x"

definition low_bits :: "'a::len word \<Rightarrow> 'a word" where
  "low_bits x = x AND (push_bit (low_bits_num TYPE('a)) 1 - 1)"

definition L1_L2 :: "'a::len word \<Rightarrow> 'a word \<Rightarrow> 'a word" where
  "L1_L2 a b = low_bits a * low_bits b"

definition result_0 :: "'a::len word \<Rightarrow> 'a word \<Rightarrow> 'a word" where
  "result_0 a b = low_bits (L1_L2 a b)"

definition H1_L2_C :: "'a::len word \<Rightarrow> 'a word \<Rightarrow> 'a word" where
  "H1_L2_C a b = high_bits a * low_bits b + high_bits (L1_L2 a b)"

definition L1_H2_C :: "'a::len word \<Rightarrow> 'a word \<Rightarrow> 'a word" where
  "L1_H2_C a b = low_bits a * high_bits b + low_bits (H1_L2_C a b)"

definition result_1 :: "'a::len word \<Rightarrow> 'a word \<Rightarrow> 'a word" where
  "result_1 a b = low_bits (L1_H2_C a b)"

definition H1_H2_C :: "'a::len word \<Rightarrow> 'a word \<Rightarrow> 'a word" where
  "H1_H2_C a b =
     high_bits a * high_bits b + high_bits (H1_L2_C a b) + high_bits (L1_H2_C a b)"

definition result_2 :: "'a::len word \<Rightarrow> 'a word \<Rightarrow> 'a word" where
  "result_2 a b = low_bits (H1_H2_C a b)"

definition result_3 :: "'a::len word \<Rightarrow> 'a word \<Rightarrow> 'a word" where
  "result_3 a b = high_bits (H1_H2_C a b)"

definition result_low :: "'a::len word \<Rightarrow> 'a word \<Rightarrow> 'a word" where
  "result_low a b = result_0 a b OR push_bit (low_bits_num TYPE('a)) (result_1 a b)"

definition result_high :: "'a::len word \<Rightarrow> 'a word \<Rightarrow> 'a word" where
  "result_high a b = result_2 a b OR push_bit (low_bits_num TYPE('a)) (result_3 a b)"

text \<open>
  The bits of the double-width result that are stored:
  \<open>((result_high & ((UT(1) << scale_bits) - 1)) << (bits_num - scale_bits))
     | (result_low >> scale_bits)\<close>.
  The expression shifts by \<open>scale_bits\<close> (twice) and by \<open>bits_num - scale_bits\<close>; it
  is undefined when one of the two counts reaches the width of the promoted \<open>UT\<close>.
\<close>

definition middle_bits :: "nat \<Rightarrow> 'a::len word \<Rightarrow> 'a word \<Rightarrow> 'a word" where
  "middle_bits s a b =
     push_bit (size_sub (bits_num TYPE('a)) s) (result_high a b AND (push_bit s 1 - 1))
       OR drop_bit s (result_low a b)"

definition long_mult :: "nat \<Rightarrow> 'a::len word \<Rightarrow> 'a word \<Rightarrow> failure + 'a word" where
  "long_mult s a b =
     (if shift_defined TYPE('a) s \<and> shift_defined TYPE('a) (size_sub (bits_num TYPE('a)) s)
      then Inr (middle_bits s a b)
      else Inl Undefined)"

text \<open>The sign bit test \<open>a >> (bits_num - 1)\<close>, made only for a signed \<open>T\<close>.\<close>

definition neg_bit :: "bool \<Rightarrow> 'a::len word \<Rightarrow> bool" where
  "neg_bit sg a = (sg \<and> drop_bit (bits_num TYPE('a) - 1) a \<noteq> 0)"

definition mul_assign_safe ::
  "config \<Rightarrow> 'a::len fixed \<Rightarrow> 'a fixed \<Rightarrow> failure + 'a fixed" where
  "mul_assign_safe c x other =
     (let a = raw_data x; b = raw_data other;
          neg_a = neg_bit (is_signed c) a;
          a = (if neg_a then - a else a);
          neg_b = neg_bit (is_signed c) b;
          b = (if neg_b then - b else b);
          negate = (neg_a \<noteq> neg_b)
      in case long_mult (scale_bits c) a b of
           Inl e \<Rightarrow> Inl e
         | Inr r \<Rightarrow> Inr \<lparr>raw_data = (if is_signed c \<and> negate then - r else r)\<rparr>)"

subsection \<open>Multiplication through the cast type (\<open>fast_multdiv = true\<close>)\<close>

text \<open>
  \<open>(static_cast<W>(raw_data) * static_cast<W>(other.raw_data)) >> scale_bits\<close>, stored
  into \<open>raw_data\<close>. The product is computed in the promoted type of \<open>W\<close>: \<open>int\<close>
  (32 bits, signed) when \<open>W\<close> is narrower than \<open>int\<close>, \<open>W\<close> itself otherwise. Values
  are mathematical integers here, wrapped to the range of the type they are held in;
  a product that overflows wraps around (the overflow behaviour of this strategy
  follows the type, as the source says). The shift is undefined when \<open>scale_bits\<close>
  reaches the width of the promoted \<open>W\<close>.
\<close>

definition mul_assign_fast ::
  "config \<Rightarrow> 'a::len fixed \<Rightarrow> 'a fixed \<Rightarrow> failure + 'a fixed" where
  "mul_assign_fast c x other =
     (let va = wrap (multdiv_cast_type c) (value_of (is_signed c) (raw_data x));
          vb = wrap (multdiv_cast_type c) (value_of (is_signed c) (raw_data other));
          ty = promoted (multdiv_cast_type c);
          p = wrap ty (va * vb)
      in if scale_bits c < snd ty
         then Inr \<lparr>raw_data = word_of_int (p div 2 ^ scale_bits c)\<rparr>
         else Inl Undefined)"

text \<open>\<open>operator*=(const fixed&)\<close>.\<close>

definition mul_assign :: "config \<Rightarrow> 'a::len fixed \<Rightarrow> 'a fixed \<Rightarrow> failure + 'a fixed" where
  "mul_assign c x other =
     (if \<not> fast_multdiv c then mul_assign_safe c x other else mul_assign_fast c x other)"

text \<open>
  \<open>operator*=(integer)\<close>: \<open>raw_data *= other\<close>. The product is converted back to \<open>T\<close>,
  so the stored word is the product modulo \<open>2 ^ n\<close> whatever the integer type of
  \<open>other\<close> is.
\<close>

definition mul_assign_int :: "'a::len fixed \<Rightarrow> int \<Rightarrow> 'a fixed" where
  "mul_assign_int x other = \<lparr>raw_data = raw_data x * word_of_int other\<rparr>"

subsection \<open>Long division (\<open>operator/=\<close>, \<open>fast_multdiv = false\<close>)\<close>

text \<open>
  One pass of the loop body on the pair \<open>(div_high, div_low)\<close>: \<open>t\<close> is all ones if the
  highest bit of \<open>div_high\<close> is set, the pair is shifted left by one bit, and the divisor
  is subtracted when \<open>(div_high | t) >= b\<close>.
\<close>

definition div_step :: "'a::len word \<Rightarrow> 'a word \<times> 'a word \<Rightarrow> 'a word \<times> 'a word" where
  "div_step b hl =
     (let div_high = fst hl; div_low = snd hl;
          t = - (drop_bit (bits_num TYPE('a) - 1) div_high);
          div_high = push_bit 1 div_high OR drop_bit (bits_num TYPE('a) - 1) div_low;
          div_low = push_bit 1 div_low
      in if b \<le> (div_high OR t) then (div_high - b, div_low + 1) else (div_high, div_low))"

text \<open>\<open>for (i = 1; i <= bits_num; i++)\<close>: the body is run the given number of times.\<close>

primrec div_loop :: "nat \<Rightarrow> 'a::len word \<Rightarrow> 'a word \<times> 'a word \<Rightarrow> 'a word \<times> 'a word" where
  "div_loop 0 b hl = hl"
| "div_loop (Suc i) b hl = div_loop i b (div_step b hl)"

text \<open>
  \<open>operator/=\<close> with \<open>fast_multdiv = false\<close>. \<open>div_high\<close> is
  \<open>scale_bits == 0 ? 0 : a >> (bits_num - scale_bits)\<close> and \<open>div_low\<close> is
  \<open>a << scale_bits\<close>: the second shift is always evaluated, the first only for a scale
  that is not zero, and the function is undefined when the count of an evaluated
  shift reaches the width of the promoted \<open>UT\<close>.
\<close>

definition div_assign_safe ::
  "config \<Rightarrow> 'a::len fixed \<Rightarrow> 'a fixed \<Rightarrow> failure + 'a fixed" where
  "div_assign_safe c x other =
     (let a = raw_data x; b = raw_data other;
          neg_a = neg_bit (is_signed c) a;
          a = (if neg_a then - a else a);
          neg_b = neg_bit (is_signed c) b;
          b = (if neg_b then - b else b);
          negate = (neg_a \<noteq> neg_b)
      in if shift_defined TYPE('a) (scale_bits c)
            \<and> (scale_bits c = 0
                 \<or> shift_defined TYPE('a) (size_sub (bits_num TYPE('a)) (scale_bits c)))
         then
           (let div_high = (if scale_bits c = 0 then 0
                            else drop_bit (size_sub (bits_num TYPE('a)) (scale_bits c)) a);
                div_low = push_bit (scale_bits c) a;
                div_low = snd (div_loop (bits_num TYPE('a)) b (div_high, div_low))
            in Inr \<lparr>raw_data = (if is_signed c \<and> negate then - div_low else div_low)\<rparr>)
         else Inl Undefined)"

subsection \<open>Division through the cast type (\<open>fast_multdiv = true\<close>)\<close>

text \<open>
  \<open>(static_cast<W>(raw_data) << scale_bits) / static_cast<W>(other.raw_data)\<close>, computed
  in the promoted type of \<open>W\<close> and stored into \<open>raw_data\<close>. The shift is undefined when
  \<open>scale_bits\<close> reaches the width of that type.
\<close>

definition div_assign_fast :: "config \<Rightarrow> 'a::len fixed \<Rightarrow> 'a fixed \<Rightarrow> failure + 'a fixed" where
  "div_assign_fast c x other =
     (let va = wrap (multdiv_cast_type c) (value_of (is_signed c) (raw_data x));
          vb = wrap (multdiv_cast_type c) (value_of (is_signed c) (raw_data other));
          ty = promoted (multdiv_cast_type c);
          num = wrap ty (va * 2 ^ scale_bits c);
          den = wrap ty vb
      in if scale_bits c < snd ty \<and> \<not> division_undefined ty num den
         then Inr \<lparr>raw_data = word_of_int (tdiv num den)\<rparr>
         else Inl Undefined)"

text \<open>\<open>operator/=(const fixed&)\<close>.\<close>

definition div_assign :: "config \<Rightarrow> 'a::len fixed \<Rightarrow> 'a fixed \<Rightarrow> failure + 'a fixed" where
  "div_assign c x other =
     (if \<not> fast_multdiv c then div_assign_safe c x other else div_assign_fast c x other)"

text \<open>
  \<open>operator/=(integer)\<close>: \<open>raw_data /= other\<close>, for an operand \<open>other\<close> of the integer
  type \<open>ty\<close>. Both operands are promoted and converted to their common type, the
  division is made there, and the quotient is converted to \<open>T\<close>.
\<close>

definition div_assign_int ::
  "config \<Rightarrow> 'a::len fixed \<Rightarrow> bool \<times> nat \<Rightarrow> int \<Rightarrow> failure + 'a fixed" where
  "div_assign_int c x ty other =
     (let ct = common_type (promoted (is_signed c, LENGTH('a))) (promoted ty);
          a = wrap ct (value_of (is_signed c) (raw_data x));
          b = wrap ct other
      in if division_undefined ct a b then Inl Undefined
         else Inr \<lparr>raw_data = word_of_int (tdiv a b)\<rparr>)"

text \<open>
  \<open>operator%=(const fixed&)\<close>: \<open>raw_data %= other.raw_data\<close>. Both operands have the
  type \<open>T\<close>; the remainder is computed in the promoted \<open>T\<close>, which holds their values.
\<close>

definition mod_assign :: "config \<Rightarrow> 'a::len fixed \<Rightarrow> 'a fixed \<Rightarrow> failure + 'a fixed" where
  "mod_assign c x other =
     (let a = value_of (is_signed c) (raw_data x);
          b = value_of (is_signed c) (raw_data other)
      in if division_undefined (promoted (is_signed c, LENGTH('a))) a b then Inl Undefined
         else Inr \<lparr>raw_data = word_of_int (trem a b)\<rparr>)"

subsection \<open>Shift assignments\<close>

text \<open>
  \<open>operator<<=\<close> and \<open>operator>>=\<close> on a shift count for which the shift is defined.
\<close>

definition shl_assign :: "'a::len fixed \<Rightarrow> nat \<Rightarrow> 'a fixed" where
  "shl_assign x amt = \<lparr>raw_data = push_bit amt (raw_data x)\<rparr>"

definition shr_assign :: "config \<Rightarrow> 'a::len fixed \<Rightarrow> nat \<Rightarrow> 'a fixed" where
  "shr_assign c x amt = \<lparr>raw_data = shift_right (is_signed c) (raw_data x) amt\<rparr>"

subsection \<open>The binary operators and their operands\<close>

text \<open>
  The right operand of a binary operator declared with \<open>auto\<close>: a value of an integer
  type, given by that type and by its mathematical value (a value in the range of the
  type), or a value of the class itself (\<open>'f\<close> is \<open>'a fixed\<close>).
\<close>

datatype 'f operand = Integer "bool \<times> nat" int | Fixed 'f

text \<open>
  The concept \<open>detail::integer_or_T<X, T>\<close> is \<open>std::integral<X> || std::same_as<X, T>\<close>,
  where \<open>T\<close> is the representation type. The class \<open>fixed\<close> is not an integral type, and
  it is not \<open>T\<close>: \<open>T\<close> is an integer type.
\<close>

fun integer_or_T :: "'f operand \<Rightarrow> bool" where
  "integer_or_T (Integer ty k) = True"
| "integer_or_T (Fixed y) = False"

text \<open>
  \<open>operator*(auto other)\<close>: \<open>result *= other\<close>. For an integer the overload
  \<open>operator*=(integer)\<close> is an exact match and is chosen.
\<close>

fun op_mul :: "config \<Rightarrow> 'a::len fixed \<Rightarrow> 'a fixed operand \<Rightarrow> failure + 'a fixed" where
  "op_mul c x (Fixed y) = mul_assign c x y"
| "op_mul c x (Integer ty k) = Inr (mul_assign_int x k)"

text \<open>The friend \<open>operator*(integer left, const fixed& right)\<close>.\<close>

definition op_mul_left :: "int \<Rightarrow> 'a::len fixed \<Rightarrow> 'a fixed" where
  "op_mul_left left right = \<lparr>raw_data = raw_data right * word_of_int left\<rparr>"

text \<open>\<open>operator/(auto other)\<close>: \<open>result /= other\<close>.\<close>

fun op_div :: "config \<Rightarrow> 'a::len fixed \<Rightarrow> 'a fixed operand \<Rightarrow> failure + 'a fixed" where
  "op_div c x (Fixed y) = div_assign c x y"
| "op_div c x (Integer ty k) = div_assign_int c x ty k"

text \<open>
  \<open>operator%(auto other)\<close>: \<open>result %= other\<close>. The only \<open>operator%=\<close> takes a
  \<open>const fixed&\<close>, so an integer is first converted by the constructor \<open>fixed(int_val)\<close>,
  whose shift by \<open>scale_bits\<close> has to be defined.
\<close>

fun op_mod :: "config \<Rightarrow> 'a::len fixed \<Rightarrow> 'a fixed operand \<Rightarrow> failure + 'a fixed" where
  "op_mod c x (Fixed y) = mod_assign c x y"
| "op_mod c x (Integer ty k) =
     (if shift_defined TYPE('a) (scale_bits c) then mod_assign c x (fixed_int c k)
      else Inl Undefined)"

text \<open>
  \<open>operator<<(detail::integer_or_T<T> auto amt)\<close> and \<open>operator>>\<close>: an operand that
  does not satisfy the constraint leaves no overload to call. \<open>raw_data <<= amt\<close> and
  \<open>raw_data >>= amt\<close> are undefined for a negative count and for a count that reaches
  the width of the promoted \<open>T\<close>.
\<close>

definition op_shl :: "config \<Rightarrow> 'a::len fixed \<Rightarrow> 'a fixed operand \<Rightarrow> failure + 'a fixed" where
  "op_shl c x amt =
     (if \<not> integer_or_T amt then Inl Ill_formed
      else case amt of
        Integer ty k \<Rightarrow>
          (if 0 \<le> k \<and> shift_defined TYPE('a) (nat k) then Inr (shl_assign x (nat k))
           else Inl Undefined)
      | Fixed y \<Rightarrow> Inl Ill_formed)"

definition op_shr :: "config \<Rightarrow> 'a::len fixed \<Rightarrow> 'a fixed operand \<Rightarrow> failure + 'a fixed" where
  "op_shr c x amt =
     (if \<not> integer_or_T amt then Inl Ill_formed
      else case amt of
        Integer ty k \<Rightarrow>
          (if 0 \<le> k \<and> shift_defined TYPE('a) (nat k) then Inr (shr_assign c x (nat k))
           else Inl Undefined)
      | Fixed y \<Rightarrow> Inl Ill_formed)"

subsection \<open>\<open>std::numeric_limits\<close> of the class\<close>

definition limits_min :: "config \<Rightarrow> 'a::len fixed" where
  "limits_min c = \<lparr>raw_data = T_min (is_signed c)\<rparr>"

definition limits_max :: "config \<Rightarrow> 'a::len fixed" where
  "limits_max c = \<lparr>raw_data = T_max (is_signed c)\<rparr>"

definition limits_epsilon :: "config \<Rightarrow> 'a::len fixed" where
  "limits_epsilon c = fixed_scaled c 1 (scale_bits c)"

subsection \<open>The reference results of the specification\<close>




subsection \<open>The invariant of the division loop\<close>


section \<open>Properties\<close>

subsection \<open>Words and their unsigned values\<close>

lemma nat_or_disjoint:
  fixes a b :: nat
  assumes "a < 2 ^ k" and "2 ^ k dvd b"
  shows "a OR b = a + b"
proof -
  from assms(2) obtain c where b: "b = push_bit k c"
    by (auto simp: push_bit_eq_mult dvd_def mult.commute)
  from assms(1) have ta: "take_bit k a = a"
    by (simp add: take_bit_nat_eq_self)
  have "take_bit k a AND push_bit k c = 0"
    by (rule bit_eqI) (auto simp: bit_simps)
  with ta b have "a AND b = 0" by simp
  then show ?thesis by (simp add: disjunctive_add_eq_or)
qed

lemma unat_or_disjoint:
  fixes x z :: "'a::len word"
  assumes "unat x < 2 ^ k" and "2 ^ k dvd unat z"
  shows "unat (x OR z) = unat x + unat z"
  unfolding unsigned_or_eq using assms by (rule nat_or_disjoint)

lemma unat_push_bit:
  "unat (push_bit k (x::'a::len word)) = (unat x * 2 ^ k) mod 2 ^ LENGTH('a)"
  unfolding unsigned_push_bit_eq by (simp add: take_bit_eq_mod push_bit_eq_mult)

lemma long_mult_poly:
  fixes aH aL bH bL m :: nat
  assumes L: "aL * bL = lq * m + lr"
    and X: "aH * bL + lq = xq * m + xr"
    and Y: "aL * bH + xr = yq * m + yr"
  shows "(aH * bH + xq + yq) * (m * m) + (lr + yr * m) = (aH * m + aL) * (bH * m + bL)"
proof -
  have "(aH * m + aL) * (bH * m + bL)
      = aH * bH * (m * m) + aH * bL * m + aL * bH * m + (aL * bL)"
    by (simp add: algebra_simps)
  also have "\<dots> = aH * bH * (m * m) + (aH * bL + lq) * m + aL * bH * m + lr"
    by (subst L) (simp add: algebra_simps)
  also have "\<dots> = aH * bH * (m * m) + xq * (m * m) + (aL * bH + xr) * m + lr"
    by (subst X) (simp add: algebra_simps)
  also have "\<dots> = (aH * bH + xq + yq) * (m * m) + (lr + yr * m)"
    by (subst Y) (simp add: algebra_simps)
  finally show ?thesis by simp
qed

lemma long_mult_nat:
  fixes aH aL bH bL m :: nat
  assumes "aH < m" "aL < m" "bH < m" "bL < m"
  defines "ll \<equiv> aL * bL"
  defines "X \<equiv> aH * bL + ll div m"
  defines "Y \<equiv> aL * bH + X mod m"
  shows "ll < m * m" "X < m * m" "Y < m * m" "aH * bH + X div m + Y div m < m * m"
    "(aH * bH + X div m + Y div m) * (m * m) + (ll mod m + (Y mod m) * m)
       = (aH * m + aL) * (bH * m + bL)"
proof -
  obtain k where m: "m = Suc k" using assms(1) by (cases m) auto
  have b: "aH \<le> k" "aL \<le> k" "bH \<le> k" "bL \<le> k" using assms(1-4) m by auto
  have p: "aL * bL \<le> k * k" "aH * bL \<le> k * k" "aL * bH \<le> k * k" "aH * bH \<le> k * k"
    using b by (simp_all add: mult_le_mono)
  show ll: "ll < m * m" using p(1) by (simp add: ll_def m)
  then have lld: "ll div m \<le> k" using less_mult_imp_div_less [of ll m m] m by simp
  have Xk: "X \<le> k * k + k" using p(2) lld by (simp add: X_def)
  then show "X < m * m" by (simp add: m)
  have "X < Suc k * m" using Xk by (simp add: m)
  then have Xd: "X div m \<le> k" using less_mult_imp_div_less [of X "Suc k" m] by simp
  have "X mod m \<le> k" using m by (simp add: less_Suc_eq_le [symmetric])
  then have Yk: "Y \<le> k * k + k" using p(3) by (simp add: Y_def)
  then show "Y < m * m" by (simp add: m)
  have "Y < Suc k * m" using Yk by (simp add: m)
  then have Yd: "Y div m \<le> k" using less_mult_imp_div_less [of Y "Suc k" m] by simp
  show "aH * bH + X div m + Y div m < m * m" using p(4) Xd Yd by (simp add: m)
  show "(aH * bH + X div m + Y div m) * (m * m) + (ll mod m + (Y mod m) * m)
       = (aH * m + aL) * (bH * m + bL)"
    by (rule long_mult_poly [where lq = "ll div m"]) (simp_all add: ll_def X_def Y_def)
qed

lemma unat_high_bits:
  "unat (high_bits (x::'a::len word)) = unat x div 2 ^ (LENGTH('a) div 2)"
  unfolding high_bits_def low_bits_num_def unat_drop_bit_eq by (simp add: drop_bit_eq_div)

lemma low_bits_take: "low_bits (x::'a::len word) = take_bit (LENGTH('a) div 2) x"
  by (simp add: low_bits_def low_bits_num_def take_bit_eq_mask mask_eq_exp_minus_1)

lemma unat_low_bits:
  "unat (low_bits (x::'a::len word)) = unat x mod 2 ^ (LENGTH('a) div 2)"
  unfolding low_bits_take unsigned_take_bit_eq by (simp add: take_bit_eq_mod)

lemma half_sq:
  assumes "even LENGTH('a::len)"
  shows "(2::nat) ^ (LENGTH('a) div 2) * 2 ^ (LENGTH('a) div 2) = 2 ^ LENGTH('a)"
proof -
  from assms obtain h where "LENGTH('a) = 2 * h" by (auto elim: evenE)
  then show ?thesis by (simp add: power_add [symmetric] mult_2)
qed

lemma unat_high_lt:
  assumes "even LENGTH('a::len)"
  shows "unat (high_bits (x::'a word)) < 2 ^ (LENGTH('a) div 2)"
proof -
  have "unat x < 2 ^ (LENGTH('a) div 2) * 2 ^ (LENGTH('a) div 2)"
    unfolding half_sq [OF assms] by simp
  then show ?thesis
    unfolding unat_high_bits by (rule less_mult_imp_div_less)
qed

lemma unat_low_lt: "unat (low_bits (x::'a::len word)) < 2 ^ (LENGTH('a) div 2)"
  by (simp add: unat_low_bits)

lemma unat_split:
  "unat (high_bits x) * 2 ^ (LENGTH('a) div 2) + unat (low_bits x) = unat (x::'a::len word)"
  unfolding unat_high_bits unat_low_bits by (rule div_mult_mod_eq)

lemma unat_add_exact:
  "unat x + unat y < 2 ^ LENGTH('a) \<Longrightarrow> unat (x + y :: 'a::len word) = unat x + unat y"
  by (simp add: unat_add_lem)

lemma unat_mult_exact:
  "unat x * unat y < 2 ^ LENGTH('a) \<Longrightarrow> unat (x * y :: 'a::len word) = unat x * unat y"
  by (simp add: unat_mult_lem)

lemma halves_nat:
  fixes a b :: "'a::len word"
  assumes ev: "even LENGTH('a)"
  defines "aH \<equiv> unat (high_bits a)" and "aL \<equiv> unat (low_bits a)"
    and "bH \<equiv> unat (high_bits b)" and "bL \<equiv> unat (low_bits b)"
    and "m \<equiv> (2::nat) ^ (LENGTH('a) div 2)"
  shows "aL * bL < 2 ^ LENGTH('a)"
    "aH * bL + aL * bL div m < 2 ^ LENGTH('a)"
    "aL * bH + (aH * bL + aL * bL div m) mod m < 2 ^ LENGTH('a)"
    "aH * bH + (aH * bL + aL * bL div m) div m
       + (aL * bH + (aH * bL + aL * bL div m) mod m) div m < 2 ^ LENGTH('a)"
    "(aH * bH + (aH * bL + aL * bL div m) div m
       + (aL * bH + (aH * bL + aL * bL div m) mod m) div m) * 2 ^ LENGTH('a)
       + (aL * bL mod m + (aL * bH + (aH * bL + aL * bL div m) mod m) mod m * m)
     = unat a * unat b"
  using long_mult_nat [OF unat_high_lt [OF ev, of a] unat_low_lt [of a]
      unat_high_lt [OF ev, of b] unat_low_lt [of b]]
  unfolding half_sq [OF ev] unat_split aH_def aL_def bH_def bL_def m_def
  by blast+

lemma unat_L1_L2:
  fixes a b :: "'a::len word"
  assumes ev: "even LENGTH('a)"
  shows "unat (L1_L2 a b) = unat (low_bits a) * unat (low_bits b)"
  unfolding L1_L2_def using halves_nat(1) [OF ev] by (rule unat_mult_exact)

lemma H1_L2_C_fits:
  fixes a b :: "'a::len word"
  assumes ev: "even LENGTH('a)"
  shows "unat (high_bits a) * unat (low_bits b) + unat (high_bits (L1_L2 a b))
           < 2 ^ LENGTH('a)"
  using halves_nat(2) [OF ev, of a b]
  by (simp add: unat_high_bits [of "L1_L2 a b"] unat_L1_L2 [OF ev])

lemma unat_sum_prod:
  fixes x y z :: "'a::len word"
  assumes "unat x * unat y + unat z < 2 ^ LENGTH('a)"
  shows "unat (x * y + z) = unat x * unat y + unat z"
proof -
  from assms have "unat x * unat y < 2 ^ LENGTH('a)" by simp
  then have "unat (x * y) = unat x * unat y" by (rule unat_mult_exact)
  with assms show ?thesis by (simp add: unat_add_exact)
qed

lemma unat_H1_L2_C:
  fixes a b :: "'a::len word"
  assumes ev: "even LENGTH('a)"
  shows "unat (H1_L2_C a b)
           = unat (high_bits a) * unat (low_bits b) + unat (high_bits (L1_L2 a b))"
  unfolding H1_L2_C_def using H1_L2_C_fits [OF ev] by (rule unat_sum_prod)

lemma L1_H2_C_fits:
  fixes a b :: "'a::len word"
  assumes ev: "even LENGTH('a)"
  shows "unat (low_bits a) * unat (high_bits b) + unat (low_bits (H1_L2_C a b))
           < 2 ^ LENGTH('a)"
  using halves_nat(3) [OF ev, of a b]
  by (simp add: unat_low_bits [of "H1_L2_C a b"] unat_H1_L2_C [OF ev]
      unat_high_bits [of "L1_L2 a b"] unat_L1_L2 [OF ev])

lemma unat_L1_H2_C:
  fixes a b :: "'a::len word"
  assumes ev: "even LENGTH('a)"
  shows "unat (L1_H2_C a b)
           = unat (low_bits a) * unat (high_bits b) + unat (low_bits (H1_L2_C a b))"
  unfolding L1_H2_C_def using L1_H2_C_fits [OF ev] by (rule unat_sum_prod)

lemma H1_H2_C_fits:
  fixes a b :: "'a::len word"
  assumes ev: "even LENGTH('a)"
  shows "unat (high_bits a) * unat (high_bits b) + unat (high_bits (H1_L2_C a b))
           + unat (high_bits (L1_H2_C a b)) < 2 ^ LENGTH('a)"
  using halves_nat(4) [OF ev, of a b]
  by (simp add: unat_high_bits [of "L1_H2_C a b"] unat_L1_H2_C [OF ev]
      unat_low_bits [of "H1_L2_C a b"] unat_high_bits [of "H1_L2_C a b"] unat_H1_L2_C [OF ev]
      unat_high_bits [of "L1_L2 a b"] unat_L1_L2 [OF ev])

lemma unat_H1_H2_C:
  fixes a b :: "'a::len word"
  assumes ev: "even LENGTH('a)"
  shows "unat (H1_H2_C a b)
           = unat (high_bits a) * unat (high_bits b) + unat (high_bits (H1_L2_C a b))
             + unat (high_bits (L1_H2_C a b))"
proof -
  note f = H1_H2_C_fits [OF ev, of a b]
  then have "unat (high_bits a) * unat (high_bits b) + unat (high_bits (H1_L2_C a b))
       < 2 ^ LENGTH('a)" by simp
  then have "unat (high_bits a * high_bits b + high_bits (H1_L2_C a b))
       = unat (high_bits a) * unat (high_bits b) + unat (high_bits (H1_L2_C a b))"
    by (rule unat_sum_prod)
  with f show ?thesis unfolding H1_H2_C_def by (simp add: unat_add_exact)
qed

lemma unat_join_halves:
  fixes x y :: "'a::len word"
  assumes ev: "even LENGTH('a)"
    and x: "unat x < 2 ^ (LENGTH('a) div 2)" and y: "unat y < 2 ^ (LENGTH('a) div 2)"
  shows "unat (x OR push_bit (low_bits_num TYPE('a)) y)
           = unat x + unat y * 2 ^ (LENGTH('a) div 2)"
proof -
  have "unat y * 2 ^ (LENGTH('a) div 2) < 2 ^ (LENGTH('a) div 2) * 2 ^ (LENGTH('a) div 2)"
    using y by simp
  then have "unat y * 2 ^ (LENGTH('a) div 2) < 2 ^ LENGTH('a)"
    unfolding half_sq [OF ev] .
  then have p: "unat (push_bit (LENGTH('a) div 2) y) = unat y * 2 ^ (LENGTH('a) div 2)"
    by (simp add: unat_push_bit)
  have "unat (x OR push_bit (LENGTH('a) div 2) y)
      = unat x + unat (push_bit (LENGTH('a) div 2) y)"
    using x by (rule unat_or_disjoint) (simp add: p)
  then show ?thesis by (simp add: p low_bits_num_def)
qed

lemma unat_result_low:
  fixes a b :: "'a::len word"
  assumes ev: "even LENGTH('a)"
  shows "unat (result_low a b)
           = unat (low_bits (L1_L2 a b))
             + unat (low_bits (L1_H2_C a b)) * 2 ^ (LENGTH('a) div 2)"
  unfolding result_low_def result_0_def result_1_def
  by (rule unat_join_halves [OF ev unat_low_lt unat_low_lt])

lemma unat_result_high:
  fixes a b :: "'a::len word"
  assumes ev: "even LENGTH('a)"
  shows "unat (result_high a b) = unat (H1_H2_C a b)"
proof -
  have "unat (result_high a b)
      = unat (low_bits (H1_H2_C a b))
        + unat (high_bits (H1_H2_C a b)) * 2 ^ (LENGTH('a) div 2)"
    unfolding result_high_def result_2_def result_3_def
    by (rule unat_join_halves [OF ev unat_low_lt unat_high_lt [OF ev]])
  then show ?thesis using unat_split [of "H1_H2_C a b"] by simp
qed

lemma long_mult_exact:
  fixes a b :: "'a::len word"
  assumes ev: "even LENGTH('a)"
  shows "unat (result_high a b) * 2 ^ LENGTH('a) + unat (result_low a b) = unat a * unat b"
  using halves_nat(5) [OF ev, of a b]
  by (simp add: unat_result_high [OF ev] unat_result_low [OF ev] unat_H1_H2_C [OF ev]
      unat_high_bits [of "L1_H2_C a b"] unat_low_bits [of "L1_H2_C a b"] unat_L1_H2_C [OF ev]
      unat_low_bits [of "H1_L2_C a b"] unat_high_bits [of "H1_L2_C a b"] unat_H1_L2_C [OF ev]
      unat_high_bits [of "L1_L2 a b"] unat_low_bits [of "L1_L2 a b"] unat_L1_L2 [OF ev])

lemma le_pred_pow: "(x::nat) < 2 ^ n \<Longrightarrow> x \<le> 2 ^ n - 1"
  by (cases "(2::nat) ^ n") simp_all

subsection \<open>The long multiplication does not wrap\<close>

text \<open>
  C7: for unsigned magnitudes \<open>a\<close> and \<open>b\<close> of the width \<open>n\<close> of the representation
  type, none of the three accumulations of the long multiplication exceeds \<open>2 ^ n - 1\<close>
  (read as natural numbers, before any reduction modulo \<open>2 ^ n\<close>): the high-low product
  plus the high half of \<open>L1_L2\<close>, the low-high product plus the low half of \<open>H1_L2_C\<close>,
  and the high-high product plus the high halves of \<open>H1_L2_C\<close> and \<open>L1_H2_C\<close>. The
  double-width result assembled from \<open>result_high\<close> and \<open>result_low\<close> is the exact
  product of \<open>a\<close> and \<open>b\<close>.
\<close>

theorem long_mult_no_wrap:
  fixes a b :: "'a::len word"
  assumes "even LENGTH('a)"
  shows "unat (high_bits a) * unat (low_bits b) + unat (high_bits (L1_L2 a b))
             \<le> 2 ^ LENGTH('a) - 1
       \<and> unat (low_bits a) * unat (high_bits b) + unat (low_bits (H1_L2_C a b))
             \<le> 2 ^ LENGTH('a) - 1
       \<and> unat (high_bits a) * unat (high_bits b) + unat (high_bits (H1_L2_C a b))
             + unat (high_bits (L1_H2_C a b)) \<le> 2 ^ LENGTH('a) - 1
       \<and> unat (result_high a b) * 2 ^ LENGTH('a) + unat (result_low a b) = unat a * unat b"
proof (intro conjI)
  show "unat (high_bits a) * unat (low_bits b) + unat (high_bits (L1_L2 a b))
          \<le> 2 ^ LENGTH('a) - 1"
    by (rule le_pred_pow [OF H1_L2_C_fits [OF assms]])
  show "unat (low_bits a) * unat (high_bits b) + unat (low_bits (H1_L2_C a b))
          \<le> 2 ^ LENGTH('a) - 1"
    by (rule le_pred_pow [OF L1_H2_C_fits [OF assms]])
  show "unat (high_bits a) * unat (high_bits b) + unat (high_bits (H1_L2_C a b))
          + unat (high_bits (L1_H2_C a b)) \<le> 2 ^ LENGTH('a) - 1"
    by (rule le_pred_pow [OF H1_H2_C_fits [OF assms]])
  show "unat (result_high a b) * 2 ^ LENGTH('a) + unat (result_low a b) = unat a * unat b"
    by (rule long_mult_exact [OF assms])
qed

theorem long_mult_no_wrap_witness:
  "even LENGTH(8)
   \<and> unat (high_bits (255 :: 8 word)) * unat (high_bits (255 :: 8 word))
       + unat (high_bits (H1_L2_C (255 :: 8 word) 255))
       + unat (high_bits (L1_H2_C (255 :: 8 word) 255)) \<le> 2 ^ LENGTH(8) - 1
   \<and> unat (result_high (255 :: 8 word) 255) * 2 ^ LENGTH(8) + unat (result_low (255 :: 8 word) 255)
       = 65025"
  using long_mult_no_wrap [of "255 :: 8 word" 255] by simp

subsection \<open>The stored bits of the product, signs and ranges\<close>







lemma shift_defined_iff: "shift_defined TYPE('a::len) amt \<longleftrightarrow> amt < max 32 LENGTH('a)"
  by (simp add: shift_defined_def promoted_def max_def)

















lemma mul_assign_safe_unfold:
  "mul_assign_safe c x other
     = (case long_mult (scale_bits c)
               (if neg_bit (is_signed c) (raw_data x) then - raw_data x else raw_data x)
               (if neg_bit (is_signed c) (raw_data other) then - raw_data other
                else raw_data other) of
          Inl e \<Rightarrow> Inl e
        | Inr r \<Rightarrow> Inr \<lparr>raw_data =
            (if is_signed c
                \<and> (neg_bit (is_signed c) (raw_data x) \<noteq> neg_bit (is_signed c) (raw_data other))
             then - r else r)\<rparr>)"
  unfolding mul_assign_safe_def Let_def ..


subsection \<open>Safe multiplication against the reference product\<close>



subsection \<open>The long division\<close>














lemma div_assign_safe_unfold:
  "div_assign_safe c x other
     = (if shift_defined TYPE('a) (scale_bits c)
           \<and> (scale_bits c = 0 \<or> shift_defined TYPE('a) (size_sub LENGTH('a) (scale_bits c)))
        then Inr \<lparr>raw_data =
          (if is_signed c
              \<and> (neg_bit (is_signed c) (raw_data x) \<noteq> neg_bit (is_signed c) (raw_data other))
           then - snd (div_loop LENGTH('a)
                 (if neg_bit (is_signed c) (raw_data other) then - raw_data other
                  else raw_data other)
                 (if scale_bits c = 0 then 0
                  else drop_bit (size_sub LENGTH('a) (scale_bits c))
                    (if neg_bit (is_signed c) (raw_data x) then - raw_data x else raw_data x),
                  push_bit (scale_bits c)
                    (if neg_bit (is_signed c) (raw_data x) then - raw_data x else raw_data x)))
           else snd (div_loop LENGTH('a)
                 (if neg_bit (is_signed c) (raw_data other) then - raw_data other
                  else raw_data other)
                 (if scale_bits c = 0 then 0
                  else drop_bit (size_sub LENGTH('a) (scale_bits c))
                    (if neg_bit (is_signed c) (raw_data x) then - raw_data x else raw_data x),
                  push_bit (scale_bits c)
                    (if neg_bit (is_signed c) (raw_data x) then - raw_data x
                     else (raw_data x :: 'a::len word)))))\<rparr>
        else Inl Undefined)"
  unfolding div_assign_safe_def Let_def bits_num_def ..











subsection \<open>Commutativity of the multiplication\<close>

lemma result_low_high_unat:
  fixes a b :: "'a::len word"
  assumes ev: "even LENGTH('a)"
  shows "unat (result_low a b) = unat a * unat b mod 2 ^ LENGTH('a)"
    and "unat (result_high a b) = unat a * unat b div 2 ^ LENGTH('a)"
proof -
  have e: "unat a * unat b = unat (result_high a b) * 2 ^ LENGTH('a) + unat (result_low a b)"
    by (rule long_mult_exact [OF ev, symmetric])
  have l: "unat (result_low a b) < 2 ^ LENGTH('a)" by simp
  show "unat (result_low a b) = unat a * unat b mod 2 ^ LENGTH('a)"
    unfolding e using l by simp
  show "unat (result_high a b) = unat a * unat b div 2 ^ LENGTH('a)"
    unfolding e using l by simp
qed

lemma result_commute:
  fixes a b :: "'a::len word"
  assumes ev: "even LENGTH('a)"
  shows "result_low a b = result_low b a" and "result_high a b = result_high b a"
proof -
  have "unat (result_low a b) = unat (result_low b a)"
    unfolding result_low_high_unat [OF ev] by (simp only: mult.commute)
  then show "result_low a b = result_low b a" by (rule word_unat_eq_iff [THEN iffD2])
  have "unat (result_high a b) = unat (result_high b a)"
    unfolding result_low_high_unat [OF ev] by (simp only: mult.commute)
  then show "result_high a b = result_high b a" by (rule word_unat_eq_iff [THEN iffD2])
qed

lemma long_mult_commute:
  fixes a b :: "'a::len word"
  assumes ev: "even LENGTH('a)"
  shows "long_mult s a b = long_mult s b a"
  unfolding long_mult_def middle_bits_def result_commute [OF ev, of a b] ..

lemma mul_assign_safe_commute:
  fixes x y :: "'a::len fixed"
  assumes ev: "even LENGTH('a)"
  shows "mul_assign_safe c x y = mul_assign_safe c y x"
  unfolding mul_assign_safe_unfold
    long_mult_commute [OF ev, of _ "if neg_bit (is_signed c) (raw_data x) then - raw_data x
      else raw_data x"]
  by (simp only: neq_commute [of "neg_bit (is_signed c) (raw_data x)"])

lemma mul_assign_fast_commute: "mul_assign_fast c x y = mul_assign_fast c y x"
  unfolding mul_assign_fast_def Let_def by (simp only: mult.commute)

text \<open>
  C6: multiplication is commutative. For two values \<open>a\<close> and \<open>b\<close> of the same
  configuration \<open>a * b\<close> equals \<open>b * a\<close> under either strategy (for the long
  multiplication on a representation type of even width), and for a value \<open>a\<close> and a
  plain integer \<open>k\<close> of any integer type the product \<open>k * a\<close> of the friend operator
  equals \<open>a * k\<close>.
\<close>

theorem mul_commutative:
  fixes a b :: "'a::len fixed"
  assumes "fast_multdiv c \<or> even LENGTH('a)"
  shows "op_mul c a (Fixed b) = op_mul c b (Fixed a)
       \<and> mul_assign c a b = mul_assign c b a
       \<and> Inr (op_mul_left k a) = op_mul c a (Integer ty k)"
proof -
  have "mul_assign c a b = mul_assign c b a"
  proof (cases "fast_multdiv c")
    case True
    then show ?thesis by (simp add: mul_assign_def mul_assign_fast_commute [of c a b])
  next
    case False
    with assms have "even LENGTH('a)" by simp
    with False show ?thesis by (simp add: mul_assign_def mul_assign_safe_commute [of c a b])
  qed
  then show ?thesis by (simp add: op_mul_left_def mul_assign_int_def)
qed

theorem mul_commutative_witness:
  "(fast_multdiv \<lparr>is_signed = True, scale_bits = 4, fast_multdiv = False,
        multdiv_cast_type = (True, 8)\<rparr> \<or> even LENGTH(8))
   \<and> op_mul \<lparr>is_signed = True, scale_bits = 4, fast_multdiv = False,
        multdiv_cast_type = (True, 8)\<rparr> \<lparr>raw_data = 232 :: 8 word\<rparr> (Fixed \<lparr>raw_data = 40\<rparr>)
     = op_mul \<lparr>is_signed = True, scale_bits = 4, fast_multdiv = False,
        multdiv_cast_type = (True, 8)\<rparr> \<lparr>raw_data = 40 :: 8 word\<rparr> (Fixed \<lparr>raw_data = 232\<rparr>)
   \<and> Inr (op_mul_left 3 \<lparr>raw_data = 232 :: 8 word\<rparr>)
     = op_mul \<lparr>is_signed = True, scale_bits = 4, fast_multdiv = False,
        multdiv_cast_type = (True, 8)\<rparr> \<lparr>raw_data = 232 :: 8 word\<rparr> (Integer (True, 32) 3)"
  using mul_commutative [where c = "\<lparr>is_signed = True, scale_bits = 4, fast_multdiv = False,
        multdiv_cast_type = (True, 8)\<rparr>" and a = "\<lparr>raw_data = 232 :: 8 word\<rparr>"
        and b = "\<lparr>raw_data = 40\<rparr>" and k = 3 and ty = "(True, 32)"]
  by simp

subsection \<open>Conversion to an integer\<close>

text \<open>
  C4: the specification asks that the conversion to an integer type \<open>T2\<close> shifts
  \<open>raw_data\<close> right by \<open>scale_bits\<close> at the width of the representation type and narrows
  the result to \<open>T2\<close> afterwards, as the comment in the conversion operator does. The
  operator casts first and shifts the narrowed value: for the 32-bit unsigned
  representation with 16 scale bits, the value with \<open>raw_data = 65536\<close> (the number 1)
  converts to the 16-bit unsigned integer 0, where the shift at the width of the
  representation type followed by the narrowing gives 1.
\<close>

theorem to_integer_narrow_target:
  "(to_integer \<lparr>is_signed = False, scale_bits = 16, fast_multdiv = False,
        multdiv_cast_type = (False, 32)\<rparr> False \<lparr>raw_data = 65536 :: 32 word\<rparr> :: 16 word) = 0
   \<and> (to_integer_spec \<lparr>is_signed = False, scale_bits = 16, fast_multdiv = False,
        multdiv_cast_type = (False, 32)\<rparr> \<lparr>raw_data = 65536 :: 32 word\<rparr> :: 16 word) = 1"
  by (simp add: to_integer_def to_integer_spec_def cast_def shift_right_def)

text \<open>
  C3: the round trip from an integer to the class and back. For the 32-bit unsigned
  representation with 16 scale bits the integer 1 is representable at the scale, and
  the 16-bit unsigned target type can represent 1; the value constructed from 1
  converts to 0.
\<close>

theorem round_trip_narrow_target:
  "(to_integer \<lparr>is_signed = False, scale_bits = 16, fast_multdiv = False,
        multdiv_cast_type = (False, 32)\<rparr> False
      (fixed_int \<lparr>is_signed = False, scale_bits = 16, fast_multdiv = False,
        multdiv_cast_type = (False, 32)\<rparr> 1 :: 32 fixed) :: 16 word) = 0"
  by (simp add: to_integer_def fixed_int_def cast_def shift_right_def)

subsection \<open>Construction with an explicit scale\<close>

text \<open>
  C5, as stated: constructing from \<open>v\<close> with an explicit scale equal to the scale of
  the class gives the same value as constructing from the plain integer \<open>v\<close>. For the
  32-bit unsigned representation with 16 scale bits and \<open>v = 1\<close> the first has
  \<open>raw_data = 1\<close> (the number \<open>1 / 2 ^ 16\<close>) and the second \<open>raw_data = 65536\<close>.
\<close>

theorem scaled_by_own_scale_counterexample:
  "raw_data (fixed_scaled \<lparr>is_signed = False, scale_bits = 16, fast_multdiv = False,
        multdiv_cast_type = (False, 32)\<rparr> 1 16 :: 32 fixed) = 1
   \<and> raw_data (fixed_int \<lparr>is_signed = False, scale_bits = 16, fast_multdiv = False,
        multdiv_cast_type = (False, 32)\<rparr> 1 :: 32 fixed) = 65536
   \<and> (fixed_scaled \<lparr>is_signed = False, scale_bits = 16, fast_multdiv = False,
        multdiv_cast_type = (False, 32)\<rparr> 1 16 :: 32 fixed)
     \<noteq> fixed_int \<lparr>is_signed = False, scale_bits = 16, fast_multdiv = False,
        multdiv_cast_type = (False, 32)\<rparr> 1"
  by (simp add: fixed_scaled_def fixed_int_def size_sub_def)

text \<open>
  C5, amended: constructing from \<open>v\<close> with the explicit scale 0 gives the same value as
  constructing from the plain integer \<open>v\<close>; constructing with the explicit scale
  \<open>scale_bits\<close> gives the value whose \<open>raw_data\<close> is \<open>T(v)\<close>.
\<close>

theorem scaled_by_zero_is_integer:
  "(fixed_scaled c v 0 :: 'a::len fixed) = fixed_int c v
   \<and> raw_data (fixed_scaled c v (scale_bits c) :: 'a fixed) = word_of_int v"
  by (simp add: fixed_scaled_def fixed_int_def size_sub_def)

subsection \<open>The numeric limits\<close>

text \<open>
  C9: for every configuration, \<open>max()\<close> and \<open>min()\<close> of the numeric limits are the values
  whose \<open>raw_data\<close> are the maximum and the minimum of the representation type, and
  \<open>epsilon()\<close> is the value constructed from 1 with the explicit scale \<open>scale_bits\<close>,
  whose \<open>raw_data\<close> is 1.
\<close>

theorem numeric_limits_raw:
  "raw_data (limits_max c :: 'a::len fixed) = T_max (is_signed c)
   \<and> raw_data (limits_min c :: 'a fixed) = T_min (is_signed c)
   \<and> (limits_epsilon c :: 'a fixed) = fixed_scaled c 1 (scale_bits c)
   \<and> raw_data (limits_epsilon c :: 'a fixed) = 1"
  by (simp add: limits_max_def limits_min_def limits_epsilon_def fixed_scaled_def size_sub_def)

subsection \<open>Shift operators\<close>

text \<open>
  C8, as stated: the shift operators accept a value of the class as the shift amount
  and shift \<open>raw_data\<close> by its raw value. The constraint \<open>detail::integer_or_T<T>\<close> on the
  operand rejects a value of the class: the expression has no overload to call.
\<close>

theorem shift_by_fixed_counterexample:
  "op_shl \<lparr>is_signed = False, scale_bits = 16, fast_multdiv = False,
        multdiv_cast_type = (False, 32)\<rparr> \<lparr>raw_data = 65536 :: 32 word\<rparr> (Fixed \<lparr>raw_data = 6\<rparr>)
     = Inl Ill_formed
   \<and> op_shr \<lparr>is_signed = False, scale_bits = 16, fast_multdiv = False,
        multdiv_cast_type = (False, 32)\<rparr> \<lparr>raw_data = 65536 :: 32 word\<rparr> (Fixed \<lparr>raw_data = 6\<rparr>)
     = Inl Ill_formed"
  by (simp add: op_shl_def op_shr_def)

text \<open>
  C8, amended: the shift operators do not accept a value of the class as the shift
  amount (the program is ill-formed); shifting by a plain integer amount that is not
  negative and is below the width of the promoted representation type (32 for a type
  narrower than \<open>int\<close>, the width of the type otherwise) shifts \<open>raw_data\<close> by that many
  bits, to the right arithmetically for a signed representation type and logically for
  an unsigned one.
\<close>

theorem shift_operands:
  fixes x y :: "'a::len fixed"
  shows "op_shl c x (Fixed y) = Inl Ill_formed \<and> op_shr c x (Fixed y) = Inl Ill_formed
   \<and> (0 \<le> k \<and> k < int (max 32 LENGTH('a)) \<longrightarrow>
        op_shl c x (Integer ty k) = Inr \<lparr>raw_data = push_bit (nat k) (raw_data x)\<rparr>
      \<and> op_shr c x (Integer ty k)
          = Inr \<lparr>raw_data = shift_right (is_signed c) (raw_data x) (nat k)\<rparr>)"
  by (auto simp: op_shl_def op_shr_def shl_assign_def shr_assign_def shift_defined_iff)

theorem shift_operands_witness:
  "(0::int) \<le> 6 \<and> (6::int) < int (max 32 LENGTH(32))
   \<and> op_shl \<lparr>is_signed = False, scale_bits = 16, fast_multdiv = False,
        multdiv_cast_type = (False, 32)\<rparr> \<lparr>raw_data = 65536 :: 32 word\<rparr> (Integer (True, 32) 6)
     = Inr (fixed_int \<lparr>is_signed = False, scale_bits = 16, fast_multdiv = False,
        multdiv_cast_type = (False, 32)\<rparr> 64)
   \<and> op_shr \<lparr>is_signed = False, scale_bits = 16, fast_multdiv = False,
        multdiv_cast_type = (False, 32)\<rparr> \<lparr>raw_data = 65536 :: 32 word\<rparr> (Integer (True, 32) 6)
     = Inr \<lparr>raw_data = 1024\<rparr>"
  using shift_operands [where c = "\<lparr>is_signed = False, scale_bits = 16, fast_multdiv = False,
        multdiv_cast_type = (False, 32)\<rparr>" and x = "\<lparr>raw_data = 65536 :: 32 word\<rparr>"
        and y = "\<lparr>raw_data = 6 :: 32 word\<rparr>" and k = 6 and ty = "(True, 32)"]
  by (simp add: fixed_int_def shift_right_def)

subsection \<open>Modulus and division by a plain integer\<close>

text \<open>
  C10: for a value \<open>x\<close> and a plain integer \<open>k\<close>, \<open>x % k\<close> converts \<open>k\<close> to a value of
  the class with the converting constructor and then takes the remainder of the raw
  values: the divisor of the remainder is \<open>T(k) << scale_bits\<close>, not \<open>k\<close>. Division by a
  plain integer divides \<open>raw_data\<close> by \<open>k\<close> itself, both converted to their common type.
  The remainder and the quotient are the ones of C++ wherever it defines them.
\<close>

theorem mod_by_integer_scales:
  fixes x :: "'a::len fixed"
  shows "(scale_bits c < max 32 LENGTH('a) \<longrightarrow>
            op_mod c x (Integer ty k) = mod_assign c x (fixed_int c k))
   \<and> raw_data (fixed_int c k :: 'a fixed) = push_bit (scale_bits c) (word_of_int k)
   \<and> (scale_bits c < max 32 LENGTH('a)
        \<and> \<not> division_undefined (promoted (is_signed c, LENGTH('a)))
              (value_of (is_signed c) (raw_data x))
              (value_of (is_signed c) (push_bit (scale_bits c) (word_of_int k :: 'a word))) \<longrightarrow>
        op_mod c x (Integer ty k)
          = Inr \<lparr>raw_data = word_of_int (trem (value_of (is_signed c) (raw_data x))
               (value_of (is_signed c) (push_bit (scale_bits c) (word_of_int k :: 'a word))))\<rparr>)
   \<and> (\<not> division_undefined (common_type (promoted (is_signed c, LENGTH('a))) (promoted ty))
              (wrap (common_type (promoted (is_signed c, LENGTH('a))) (promoted ty))
                 (value_of (is_signed c) (raw_data x)))
              (wrap (common_type (promoted (is_signed c, LENGTH('a))) (promoted ty)) k) \<longrightarrow>
        op_div c x (Integer ty k)
          = Inr \<lparr>raw_data = word_of_int
               (tdiv (wrap (common_type (promoted (is_signed c, LENGTH('a))) (promoted ty))
                        (value_of (is_signed c) (raw_data x)))
                     (wrap (common_type (promoted (is_signed c, LENGTH('a))) (promoted ty)) k))\<rparr>)"
  by (simp add: mod_assign_def fixed_int_def div_assign_int_def shift_defined_iff Let_def)

theorem mod_by_integer_scales_witness:
  "(16::nat) < max 32 LENGTH(32)
   \<and> \<not> division_undefined (promoted (False, LENGTH(32)))
         (value_of False (360448 :: 32 word))
         (value_of False (push_bit 16 (word_of_int 2 :: 32 word)))
   \<and> \<not> division_undefined (common_type (promoted (False, LENGTH(32))) (promoted (True, 32)))
         (wrap (common_type (promoted (False, LENGTH(32))) (promoted (True, 32)))
            (value_of False (360448 :: 32 word)))
         (wrap (common_type (promoted (False, LENGTH(32))) (promoted (True, 32))) 2)
   \<and> op_mod \<lparr>is_signed = False, scale_bits = 16, fast_multdiv = False,
        multdiv_cast_type = (False, 32)\<rparr> \<lparr>raw_data = 360448 :: 32 word\<rparr> (Integer (True, 32) 2)
     = Inr \<lparr>raw_data = 98304\<rparr>
   \<and> op_div \<lparr>is_signed = False, scale_bits = 16, fast_multdiv = False,
        multdiv_cast_type = (False, 32)\<rparr> \<lparr>raw_data = 360448 :: 32 word\<rparr> (Integer (True, 32) 2)
     = Inr \<lparr>raw_data = 180224\<rparr>"
  using mod_by_integer_scales [where c = "\<lparr>is_signed = False, scale_bits = 16,
        fast_multdiv = False, multdiv_cast_type = (False, 32)\<rparr>"
        and x = "\<lparr>raw_data = 360448 :: 32 word\<rparr>" and k = 2 and ty = "(True, 32)"]
  by (simp add: value_of_def trem_def tdiv_def division_undefined_def promoted_def
      common_type_def wrap_def shift_defined_iff)

subsection \<open>Where the operators are undefined\<close>

text \<open>
  The operators at inputs where C++ defines no result. On the 32-bit unsigned
  representation the long multiplication and the long division with 32 scale bits
  shift by the full width, and so does a shift operator with the count 32. Dividing
  the least value of the 32-bit signed representation by the \<open>int\<close> \<open>-1\<close>, or taking
  its remainder by the value with \<open>raw_data = -1\<close>, overflows. Dividing the 32-bit
  unsigned \<open>raw_data = 65536\<close> by the \<open>int\<close> \<open>-1\<close> is defined: \<open>-1\<close> is converted to
  \<open>4294967295\<close> and the quotient is 0.
\<close>

lemma full_width_scale_undefined:
  "mul_assign \<lparr>is_signed = False, scale_bits = 32, fast_multdiv = False,
        multdiv_cast_type = (False, 32)\<rparr> \<lparr>raw_data = 2147483648 :: 32 word\<rparr>
        \<lparr>raw_data = 2147483648\<rparr> = Inl Undefined"
  "div_assign \<lparr>is_signed = False, scale_bits = 32, fast_multdiv = False,
        multdiv_cast_type = (False, 32)\<rparr> \<lparr>raw_data = 1 :: 32 word\<rparr>
        \<lparr>raw_data = 2147483648\<rparr> = Inl Undefined"
  "mul_assign \<lparr>is_signed = False, scale_bits = 0, fast_multdiv = False,
        multdiv_cast_type = (False, 32)\<rparr> \<lparr>raw_data = 2 :: 32 word\<rparr>
        \<lparr>raw_data = 3\<rparr> = Inl Undefined"
  by (simp_all add: mul_assign_def mul_assign_safe_unfold long_mult_def div_assign_def
      div_assign_safe_unfold shift_defined_iff size_sub_def bits_num_def)

lemma full_width_shift_undefined:
  "op_shl \<lparr>is_signed = False, scale_bits = 16, fast_multdiv = False,
        multdiv_cast_type = (False, 32)\<rparr> \<lparr>raw_data = 65536 :: 32 word\<rparr> (Integer (True, 32) 32)
     = Inl Undefined"
  "op_shr \<lparr>is_signed = False, scale_bits = 16, fast_multdiv = False,
        multdiv_cast_type = (False, 32)\<rparr> \<lparr>raw_data = 65536 :: 32 word\<rparr> (Integer (True, 32) 32)
     = Inl Undefined"
  by (simp_all add: op_shl_def op_shr_def shift_defined_iff)

lemma integer_division_conversions:
  "op_div \<lparr>is_signed = False, scale_bits = 16, fast_multdiv = False,
        multdiv_cast_type = (False, 32)\<rparr> \<lparr>raw_data = 65536 :: 32 word\<rparr>
        (Integer (True, 32) (- 1)) = Inr \<lparr>raw_data = 0\<rparr>"
  "op_div \<lparr>is_signed = True, scale_bits = 16, fast_multdiv = False,
        multdiv_cast_type = (True, 32)\<rparr> \<lparr>raw_data = 2147483648 :: 32 word\<rparr>
        (Integer (True, 32) (- 1)) = Inl Undefined"
  "op_mod \<lparr>is_signed = True, scale_bits = 0, fast_multdiv = False,
        multdiv_cast_type = (True, 32)\<rparr> \<lparr>raw_data = 2147483648 :: 32 word\<rparr>
        (Integer (True, 32) (- 1)) = Inl Undefined"
  "op_div \<lparr>is_signed = False, scale_bits = 4, fast_multdiv = False,
        multdiv_cast_type = (False, 8)\<rparr> \<lparr>raw_data = 200 :: 8 word\<rparr>
        (Integer (True, 32) (- 1)) = Inr \<lparr>raw_data = 56\<rparr>"
  by (simp_all add: div_assign_int_def mod_assign_def fixed_int_def shift_defined_iff
      division_undefined_def promoted_def common_type_def wrap_def value_of_def tdiv_def
      Let_def mask_eq_exp_minus_1)

end
